theory Spec2Isabelle
  imports Complex_Main "HOL-Library.AList"
begin

section \<open>Python values shared by the three source files\<close>

text \<open>
  Exceptions of the Python run time that the modelled code can raise. A function that can
  raise returns \<open>py_error + 'a\<close>, with \<open>Inl\<close> for the exception.
\<close>

datatype py_error =
    KeyError string
  | TypeError
  | UnboundLocalError string
  | AttributeError
  | OverflowError
  | RuntimeError

section \<open>The loss dictionary (helper/distiller.py)\<close>

text \<open>
  A Python \<open>dict\<close> from component name to scalar, kept in insertion order: assigning to a
  key that is present replaces its value in place, assigning to a new key appends it.
  Scalars are real numbers; rounding and the special values of floating point are outside
  this model.
\<close>

type_synonym loss_dict = "(string \<times> real) list"

definition dict_setitem :: "string \<Rightarrow> real \<Rightarrow> loss_dict \<Rightarrow> loss_dict" where
  "dict_setitem k v d = AList.update k v d"

definition dict_contains :: "string \<Rightarrow> loss_dict \<Rightarrow> bool" where
  "dict_contains k d = (map_of d k \<noteq> None)"

text \<open>\<open>d[k]\<close> and \<open>d.pop(k)\<close> raise \<open>KeyError\<close> on a missing key.\<close>

definition dict_getitem :: "string \<Rightarrow> loss_dict \<Rightarrow> py_error + real" where
  "dict_getitem k d = (case map_of d k of None \<Rightarrow> Inl (KeyError k) | Some v \<Rightarrow> Inr v)"

definition dict_pop :: "string \<Rightarrow> loss_dict \<Rightarrow> py_error + loss_dict" where
  "dict_pop k d = (if dict_contains k d then Inr (AList.delete k d) else Inl (KeyError k))"

text \<open>\<open>sum(d.values())\<close>: the built-in starts from 0 and adds the values from the left.\<close>

definition sum_values :: "loss_dict \<Rightarrow> real" where
  "sum_values d = foldl (+) 0 (map snd d)"

subsection \<open>Model outputs, adaptors, the distiller\<close>

text \<open>
  The output of a model is a dict-like object: the entry \<open>loss\<close> is a scalar that is
  present only when the batch carries labels, every other entry is a tensor of the
  abstract type \<open>'t\<close>. An adaptor (its class lives outside the three files) has a name, a
  scalar weight \<open>w\<close> and is callable on the teacher's and the student's feature and the
  mask; the callable is a parameter of the model.
\<close>

record 't model_out =
  loss :: "real option"
  feats :: "string \<rightharpoonup> 't"

record 't adaptor =
  name :: string
  w :: real
  call :: "'t option \<Rightarrow> 't option \<Rightarrow> 't option \<Rightarrow> real"

record 't distiller =
  teacher :: "(string \<rightharpoonup> 't) \<Rightarrow> 't model_out"
  student :: "(string \<rightharpoonup> 't) \<Rightarrow> 't model_out"
  adaptors :: "'t adaptor list"

text \<open>\<open>out.get('loss', 0)\<close>\<close>

definition get_loss :: "'t model_out \<Rightarrow> real" where
  "get_loss out = (case loss out of None \<Rightarrow> 0 | Some v \<Rightarrow> v)"

text \<open>\<open>adaptor.name.split(':')[0]\<close>: the name up to its first colon.\<close>

definition feature_name :: "'t adaptor \<Rightarrow> string" where
  "feature_name a = takeWhile (\<lambda>c. c \<noteq> CHR '':'') (name a)"

text \<open>The value one adaptor stores: \<open>adaptor.w * adaptor(out_t.get(f), out_s.get(f), mask=mask)\<close>.\<close>

definition adaptor_loss ::
  "'t model_out \<Rightarrow> 't model_out \<Rightarrow> 't option \<Rightarrow> 't adaptor \<Rightarrow> real" where
  "adaptor_loss out_t out_s msk a =
     w a * call a (feats out_t (feature_name a)) (feats out_s (feature_name a)) msk"

definition compute_loss ::
  "'t adaptor list \<Rightarrow> 't model_out \<Rightarrow> 't model_out \<Rightarrow> 't option \<Rightarrow> loss_dict" where
  "compute_loss ads out_t out_s msk =
     foldl (\<lambda>d a. dict_setitem (name a) (adaptor_loss out_t out_s msk a) d)
       [(''pred:nll'', get_loss out_s), (''nll_loss_teacher'', get_loss out_t)]
       ads"

text \<open>\<open>forward\<close>: the teacher's output, then the student's, on the same batch.\<close>

definition forward :: "'t distiller \<Rightarrow> (string \<rightharpoonup> 't) \<Rightarrow> 't model_out \<times> 't model_out" where
  "forward d batch = (teacher d batch, student d batch)"

text \<open>
  The part of \<open>BaseDistiller.training_step\<close> after the dictionary is built and logged:
  both prediction terms go when \<open>pred:nll\<close> is zero, the teacher's term goes whenever it
  is still there, and the rest is summed.
\<close>

definition reduce_loss :: "loss_dict \<Rightarrow> py_error + real" where
  "reduce_loss d =
     (case dict_getitem ''pred:nll'' d of
        Inl e \<Rightarrow> Inl e
      | Inr p \<Rightarrow>
          (case (if p = 0
                 then (case dict_pop ''pred:nll'' d of
                         Inl e \<Rightarrow> Inl e
                       | Inr d1 \<Rightarrow> dict_pop ''nll_loss_teacher'' d1)
                 else Inr d) of
             Inl e \<Rightarrow> Inl e
           | Inr d2 \<Rightarrow>
               (case (if dict_contains ''nll_loss_teacher'' d2
                      then dict_pop ''nll_loss_teacher'' d2
                      else Inr d2) of
                  Inl e \<Rightarrow> Inl e
                | Inr d3 \<Rightarrow> Inr (sum_values d3))))"

text \<open>
  \<open>BaseDistiller.training_step\<close> returns what it logged (every entry of the dictionary,
  before any removal) and the loss, or the exception raised.
\<close>

definition training_step ::
  "'t distiller \<Rightarrow> (string \<rightharpoonup> 't) \<Rightarrow> loss_dict \<times> (py_error + real)" where
  "training_step d batch =
     (let (out_t, out_s) = forward d batch;
          loss_dict = compute_loss (adaptors d) out_t out_s (batch ''attention_mask'')
      in (loss_dict, reduce_loss loss_dict))"

subsection \<open>The checkpoint adapter \<open>HgCkptIO\<close>\<close>

text \<open>
  A checkpoint is a dict of arbitrary objects; the ones that matter here are models (which
  have \<open>save_pretrained\<close>) and everything else (which has not). The file system records
  the directories made and, for every \<open>save_pretrained\<close>, the target path and the model
  that was serialised there.
\<close>

datatype 't ckpt_value =
    HgModel "(string \<rightharpoonup> 't) \<Rightarrow> 't model_out"
  | OtherValue

type_synonym 't checkpoint = "string \<rightharpoonup> 't ckpt_value"

record 't filesystem =
  made_dirs :: "string list"
  saved_models :: "(string \<times> ((string \<rightharpoonup> 't) \<Rightarrow> 't model_out)) list"

text \<open>
  \<open>os.path.dirname\<close> on POSIX: the path up to its last slash, with trailing slashes
  stripped unless the head consists of slashes only.
\<close>

definition dirname :: "string \<Rightarrow> string" where
  "dirname p =
     (let head = rev (dropWhile (\<lambda>c. c \<noteq> CHR ''/'') (rev p))
      in if head \<noteq> [] \<and> filter (\<lambda>c. c \<noteq> CHR ''/'') head \<noteq> []
         then rev (dropWhile (\<lambda>c. c = CHR ''/'') (rev head))
         else head)"

text \<open>\<open>BaseDistiller.on_save_checkpoint\<close>: \<open>checkpoint['student'] = self.student\<close>\<close>

definition on_save_checkpoint :: "'t distiller \<Rightarrow> 't checkpoint \<Rightarrow> 't checkpoint" where
  "on_save_checkpoint d ckpt = ckpt(''student'' \<mapsto> HgModel (student d))"

text \<open>
  \<open>HgCkptIO.save_checkpoint\<close>: the directory is made first, so it exists also when the
  lookup of \<open>'student'\<close> or the call of \<open>save_pretrained\<close> raises afterwards.
\<close>

definition save_checkpoint ::
  "'t checkpoint \<Rightarrow> string \<Rightarrow> 't filesystem \<Rightarrow> py_error option \<times> 't filesystem" where
  "save_checkpoint ckpt path fs =
     (let fs1 = fs\<lparr>made_dirs := made_dirs fs @ [dirname path]\<rparr>
      in case ckpt ''student'' of
           None \<Rightarrow> (Some (KeyError ''student''), fs1)
         | Some OtherValue \<Rightarrow> (Some AttributeError, fs1)
         | Some (HgModel m) \<Rightarrow> (None, fs1\<lparr>saved_models := saved_models fs1 @ [(path, m)]\<rparr>))"

section \<open>Perplexity (helper/pretrainer.py)\<close>

text \<open>
  A Python float: a finite number or one of the three special values. \<open>math.exp\<close> belongs
  to the Python library, so \<open>Pretrainer.validation_epoch_end\<close> takes it as a parameter
  that either returns a float or raises. Only \<open>OverflowError\<close> is caught.
\<close>

datatype pyfloat = Finite real | PosInf | NegInf | NaN

definition pretrainer_validation_epoch_end ::
  "(pyfloat \<Rightarrow> py_error + pyfloat) \<Rightarrow> pyfloat \<Rightarrow> py_error + (string \<times> pyfloat) list" where
  "pretrainer_validation_epoch_end math_exp val_loss =
     (case (case math_exp val_loss of
              Inr v \<Rightarrow> Inr v
            | Inl OverflowError \<Rightarrow> Inr PosInf
            | Inl e \<Rightarrow> Inl e) of
        Inl e \<Rightarrow> Inl e
      | Inr perplexity \<Rightarrow> Inr [(''perplexity'', perplexity)])"

text \<open>
  One instance of the parameter, used to exercise the model: the exact exponential, which
  raises \<open>OverflowError\<close> when the result exceeds the largest float \<open>max_float\<close>.
\<close>

definition exact_exp :: "real \<Rightarrow> pyfloat \<Rightarrow> py_error + pyfloat" where
  "exact_exp max_float x =
     (case x of
        Finite r \<Rightarrow> if exp r \<le> max_float then Inr (Finite (exp r)) else Inl OverflowError
      | PosInf \<Rightarrow> Inr PosInf
      | NegInf \<Rightarrow> Inr (Finite 0)
      | NaN \<Rightarrow> Inr NaN)"

section \<open>The two-stage script (distillation_2steps.py)\<close>

text \<open>
  The argument namespace. \<open>num_clases\<close> is not an option of the parser: the attribute
  exists only once something assigns it, so it is optional here.
\<close>

record namespace =
  trn_dataset :: string
  val_dataset :: string
  num_classes :: int
  num_clases :: "int option"
  student_model :: "string option"
  teacher_model :: string
  teacher_model_pt :: string
  hidden_size :: int
  hidden_layers :: int
  atten_heads :: int

text \<open>
  The dataset library is external: what the two \<open>load_dataset\<close> calls return (a dict from
  split name to dataset), \<open>remove_columns\<close> and \<open>concatenate_datasets\<close> are parameters.
\<close>

record 'ds datasets_lib =
  load_sst2 :: "string \<rightharpoonup> 'ds"
  load_tweet :: "string \<rightharpoonup> 'ds"
  remove_columns :: "string list \<Rightarrow> (string \<rightharpoonup> 'ds) \<Rightarrow> (string \<rightharpoonup> 'ds)"
  concatenate_datasets :: "'ds list \<Rightarrow> 'ds"

definition split_getitem :: "(string \<rightharpoonup> 'ds) \<Rightarrow> string \<Rightarrow> py_error + 'ds" where
  "split_getitem dd k = (case dd k of None \<Rightarrow> Inl (KeyError k) | Some v \<Rightarrow> Inr v)"

text \<open>
  The first \<open>if\<close> chain of \<open>get_dataset_obj\<close>: the local \<open>train\<close> afterwards, \<open>None\<close> when
  no branch assigned it.
\<close>

definition select_train :: "'ds datasets_lib \<Rightarrow> namespace \<Rightarrow> py_error + 'ds option" where
  "select_train lib args =
     (if trn_dataset args = ''sst2'' then
        (case split_getitem (load_sst2 lib) ''train'' of
           Inl e \<Rightarrow> Inl e | Inr t \<Rightarrow> Inr (Some t))
      else if trn_dataset args = ''tweet'' then
        (case split_getitem (load_tweet lib) ''train'' of
           Inl e \<Rightarrow> Inl e | Inr t \<Rightarrow> Inr (Some t))
      else if trn_dataset args = ''sst2-tweet'' then
        (case split_getitem (remove_columns lib [''idx'', ''label''] (load_sst2 lib)) ''train'' of
           Inl e \<Rightarrow> Inl e
         | Inr a \<Rightarrow>
             (case split_getitem (remove_columns lib [''label''] (load_tweet lib)) ''train'' of
                Inl e \<Rightarrow> Inl e
              | Inr b \<Rightarrow> Inr (Some (concatenate_datasets lib [a, b]))))
      else Inr None)"

text \<open>
  \<open>get_dataset_obj\<close> returns the dataset dict; the namespace is mutated in place, so the
  model returns it too. Reading a local that was never assigned raises
  \<open>UnboundLocalError\<close>.
\<close>

definition get_dataset_obj ::
  "'ds datasets_lib \<Rightarrow> namespace \<Rightarrow> py_error + ((string \<rightharpoonup> 'ds) \<times> namespace)" where
  "get_dataset_obj lib args =
     (case select_train lib args of
        Inl e \<Rightarrow> Inl e
      | Inr train \<Rightarrow>
          if val_dataset args = ''sst2'' then
            (case train of
               None \<Rightarrow> Inl (UnboundLocalError ''train'')
             | Some t \<Rightarrow> Inr ((load_sst2 lib)(''train'' \<mapsto> t), args\<lparr>num_classes := 2\<rparr>))
          else if val_dataset args = ''tweet'' then
            (case train of
               None \<Rightarrow> Inl (UnboundLocalError ''train'')
             | Some t \<Rightarrow> Inr ((load_tweet lib)(''train'' \<mapsto> t), args\<lparr>num_clases := Some 3\<rparr>))
          else Inl (UnboundLocalError ''dataset''))"

subsection \<open>Models and the distiller object\<close>

text \<open>
  What the script fixes of a model: where it comes from, the number of labels and the two
  output flags.
\<close>

datatype model_origin = Pretrained string | FreshBert int int int

record hg_model =
  origin :: model_origin
  num_labels :: int
  output_attentions :: bool
  output_hidden_states :: bool

definition get_teacher_and_student :: "namespace \<Rightarrow> hg_model \<times> hg_model" where
  "get_teacher_and_student args =
     (let student0 =
            (case student_model args of
               None \<Rightarrow> FreshBert (hidden_size args) (hidden_layers args) (atten_heads args)
             | Some s \<Rightarrow>
                 if s = [] then FreshBert (hidden_size args) (hidden_layers args) (atten_heads args)
                 else Pretrained s)
      in (\<lparr>origin = Pretrained (teacher_model args), num_labels = num_classes args,
            output_attentions = True, output_hidden_states = True\<rparr>,
          \<lparr>origin = student0, num_labels = num_classes args,
            output_attentions = True, output_hidden_states = True\<rparr>))"

text \<open>The objects the script passes around.\<close>

datatype script_val = ModelV hg_model | ArgsV namespace | AdaptorV string

text \<open>
  A \<open>BaseDistiller\<close> of helper/distiller.py as a caller sees it: its three stored
  arguments and the number of classes its four metrics were built with.
\<close>

record distiller_obj =
  obj_teacher :: script_val
  obj_student :: script_val
  obj_adaptors :: script_val
  metric_num_classes :: int

text \<open>
  Calling that class with positional arguments binds them to the parameters
  \<open>teacher, student, args, adaptors\<close> of its \<open>__init__\<close>, none of which has a default:
  any other number of arguments is a \<open>TypeError\<close>. The body then reads
  \<open>args.num_classes\<close>.
\<close>

definition new_BaseDistiller :: "script_val list \<Rightarrow> py_error + distiller_obj" where
  "new_BaseDistiller argv =
     (case argv of
        [t, s, a, ads] \<Rightarrow>
          (case a of
             ArgsV ns \<Rightarrow> Inr \<lparr>obj_teacher = t, obj_student = s, obj_adaptors = ads,
                              metric_num_classes = num_classes ns\<rparr>
           | _ \<Rightarrow> Inl AttributeError)
      | _ \<Rightarrow> Inl TypeError)"

section \<open>The loss dictionary with Python floats\<close>

text \<open>
  The scalars of the dictionary are Python floats, which besides the finite numbers have
  the two infinities and NaN. This section repeats \<open>compute_loss\<close> with such scalars. The
  product of two floats belongs to the run time and is a parameter; \<open>out.get('loss', 0)\<close>
  falls back to the number 0.
\<close>

type_synonym float_dict = "(string \<times> pyfloat) list"

record 't float_out =
  float_loss :: "pyfloat option"
  float_feats :: "string \<rightharpoonup> 't"

record 't float_adaptor =
  float_name :: string
  float_w :: pyfloat
  float_call :: "'t option \<Rightarrow> 't option \<Rightarrow> 't option \<Rightarrow> pyfloat"

definition get_float_loss :: "'t float_out \<Rightarrow> pyfloat" where
  "get_float_loss out = (case float_loss out of None \<Rightarrow> Finite 0 | Some v \<Rightarrow> v)"

definition float_feature_name :: "'t float_adaptor \<Rightarrow> string" where
  "float_feature_name a = takeWhile (\<lambda>c. c \<noteq> CHR '':'') (float_name a)"

definition float_adaptor_loss ::
  "(pyfloat \<Rightarrow> pyfloat \<Rightarrow> pyfloat) \<Rightarrow> 't float_out \<Rightarrow> 't float_out \<Rightarrow> 't option \<Rightarrow>
   't float_adaptor \<Rightarrow> pyfloat" where
  "float_adaptor_loss mul out_t out_s msk a =
     mul (float_w a)
         (float_call a (float_feats out_t (float_feature_name a))
                       (float_feats out_s (float_feature_name a)) msk)"

definition compute_loss_float ::
  "(pyfloat \<Rightarrow> pyfloat \<Rightarrow> pyfloat) \<Rightarrow> 't float_adaptor list \<Rightarrow> 't float_out \<Rightarrow> 't float_out \<Rightarrow>
   't option \<Rightarrow> float_dict" where
  "compute_loss_float mul ads out_t out_s msk =
     foldl (\<lambda>d a. AList.update (float_name a) (float_adaptor_loss mul out_t out_s msk a) d)
       [(''pred:nll'', get_float_loss out_s), (''nll_loss_teacher'', get_float_loss out_t)]
       ads"




text \<open>
  The real-valued outputs and adaptors of the first section, read as float-valued ones
  with finite entries.
\<close>

definition lift_out :: "'t model_out \<Rightarrow> 't float_out" where
  "lift_out out = \<lparr>float_loss = map_option Finite (loss out), float_feats = feats out\<rparr>"

definition lift_adaptor :: "'t adaptor \<Rightarrow> 't float_adaptor" where
  "lift_adaptor a =
     \<lparr>float_name = name a, float_w = Finite (w a),
      float_call = (\<lambda>t s m. Finite (call a t s m))\<rparr>"

section \<open>The loss dictionary as an object\<close>

text \<open>
  The dictionary is an object: \<open>compute_loss\<close> creates it and fills it in place,
  \<open>training_step\<close> holds the only reference to it in a local variable and removes entries
  in place, and when the step returns or raises that reference goes and the object with
  it. The heap maps the addresses of the dictionaries that exist to their contents;
  \<open>fresh\<close> is the next address to hand out.
\<close>

record dict_heap =
  cells :: "nat \<rightharpoonup> loss_dict"
  fresh :: nat









section \<open>Concrete inputs\<close>

text \<open>Tensors are natural numbers in the examples.\<close>

definition ex_adaptor :: "nat adaptor" where
  "ex_adaptor = \<lparr>name = ''attentions:mse'', w = 2, call = (\<lambda>t s m. 5)\<rparr>"

definition ex_zero_adaptor :: "nat adaptor" where
  "ex_zero_adaptor = \<lparr>name = ''attentions:mse'', w = 2, call = (\<lambda>t s m. 0)\<rparr>"


text \<open>A batch with labels: the student's loss is 1, the teacher's is 2.\<close>

definition ex_distiller :: "nat distiller" where
  "ex_distiller =
     \<lparr>teacher = (\<lambda>b. \<lparr>loss = Some 2, feats = Map.empty\<rparr>),
      student = (\<lambda>b. \<lparr>loss = Some 1, feats = Map.empty\<rparr>),
      adaptors = [ex_adaptor]\<rparr>"

text \<open>A batch without labels: neither output has a loss.\<close>

definition ex_distiller_unlabelled :: "nat distiller" where
  "ex_distiller_unlabelled =
     \<lparr>teacher = (\<lambda>b. \<lparr>loss = None, feats = Map.empty\<rparr>),
      student = (\<lambda>b. \<lparr>loss = None, feats = Map.empty\<rparr>),
      adaptors = [ex_adaptor]\<rparr>"

definition ex_distiller_zero :: "nat distiller" where
  "ex_distiller_zero =
     \<lparr>teacher = (\<lambda>b. \<lparr>loss = Some 0, feats = Map.empty\<rparr>),
      student = (\<lambda>b. \<lparr>loss = Some 0, feats = Map.empty\<rparr>),
      adaptors = [ex_zero_adaptor]\<rparr>"

text \<open>The parser's defaults with both datasets set to \<open>tweet\<close>; datasets are numbers.\<close>

definition ex_args :: namespace where
  "ex_args = \<lparr>trn_dataset = ''tweet'', val_dataset = ''tweet'', num_classes = 2,
              num_clases = None, student_model = None, teacher_model = ''bert-base-uncased'',
              teacher_model_pt = ''ckpts/teacher'', hidden_size = 768, hidden_layers = 12,
              atten_heads = 12\<rparr>"

definition ex_lib :: "nat datasets_lib" where
  "ex_lib = \<lparr>load_sst2 = [''train'' \<mapsto> 1, ''validation'' \<mapsto> 2],
             load_tweet = [''train'' \<mapsto> 3, ''validation'' \<mapsto> 4],
             remove_columns = (\<lambda>cols dd. dd),
             concatenate_datasets = sum_list\<rparr>"






section \<open>Facts about the loss dictionary\<close>

lemma foldl_plus_sum_list: "foldl (+) (a::real) xs = a + sum_list xs"
  by (induction xs arbitrary: a) simp_all

lemma sum_values_sum_list: "sum_values d = sum_list (map snd d)"
  by (simp add: sum_values_def foldl_plus_sum_list)

lemma sum_list_all_zero: "(\<And>x. x \<in> set xs \<Longrightarrow> x = (0::real)) \<Longrightarrow> sum_list xs = 0"
  by (induction xs) simp_all

lemma setitem_fresh: "k \<notin> fst ` set d \<Longrightarrow> dict_setitem k v d = d @ [(k, v)]"
  unfolding dict_setitem_def by (induction d) auto

lemma setitem_keys: "fst ` set (dict_setitem k v d) = insert k (fst ` set d)"
  unfolding dict_setitem_def by (simp add: dom_update)


lemma setitem_entries: "x \<in> set (dict_setitem k v d) \<Longrightarrow> x = (k, v) \<or> x \<in> set d"
  unfolding dict_setitem_def by (induction d) (auto split: if_splits)

text \<open>The loop of \<open>compute_loss\<close>, from any starting dictionary.\<close>

lemma fold_setitem_keys:
  "fst ` set (foldl (\<lambda>d a. dict_setitem (name a) (f a) d) d0 ads) =
     fst ` set d0 \<union> name ` set ads"
  by (induction ads arbitrary: d0) (auto simp: setitem_keys)


lemma fold_setitem_fresh:
  "distinct (map name ads) \<Longrightarrow> name ` set ads \<inter> fst ` set d0 = {} \<Longrightarrow>
   foldl (\<lambda>d a. dict_setitem (name a) (f a) d) d0 ads = d0 @ map (\<lambda>a. (name a, f a)) ads"
proof (induction ads arbitrary: d0)
  case Nil
  then show ?case by simp
next
  case (Cons a ads)
  have fresh: "name a \<notin> fst ` set d0" using Cons.prems(2) by auto
  have step: "dict_setitem (name a) (f a) d0 = d0 @ [(name a, f a)]"
    by (rule setitem_fresh [OF fresh])
  have disj: "name ` set ads \<inter> fst ` set (d0 @ [(name a, f a)]) = {}"
    using Cons.prems by auto
  have "distinct (map name ads)" using Cons.prems(1) by simp
  from Cons.IH [OF this disj] show ?case by (simp add: step)
qed

lemma fold_setitem_entries:
  "x \<in> set (foldl (\<lambda>d a. dict_setitem (name a) (f a) d) d0 ads) \<Longrightarrow>
   x \<in> set d0 \<or> (\<exists>a \<in> set ads. x = (name a, f a))"
proof (induction ads arbitrary: d0)
  case Nil
  then show ?case by simp
next
  case (Cons a ads)
  from Cons.IH [of "dict_setitem (name a) (f a) d0"] Cons.prems
  have "x \<in> set (dict_setitem (name a) (f a) d0) \<or> (\<exists>b \<in> set ads. x = (name b, f b))"
    by simp
  then show ?case using setitem_entries [of x "name a" "f a" d0] by auto
qed

lemma compute_loss_keys:
  "fst ` set (compute_loss ads out_t out_s msk) =
     {''pred:nll'', ''nll_loss_teacher''} \<union> name ` set ads"
  unfolding compute_loss_def by (simp add: fold_setitem_keys)


lemma compute_loss_fresh:
  assumes "distinct (map name ads)"
      and "''pred:nll'' \<notin> name ` set ads" and "''nll_loss_teacher'' \<notin> name ` set ads"
  shows "compute_loss ads out_t out_s msk =
           (''pred:nll'', get_loss out_s) # (''nll_loss_teacher'', get_loss out_t) #
           map (\<lambda>a. (name a, adaptor_loss out_t out_s msk a)) ads"
proof -
  have "name ` set ads \<inter>
        fst ` set [(''pred:nll'', get_loss out_s), (''nll_loss_teacher'', get_loss out_t)] = {}"
    using assms(2,3) by auto
  from fold_setitem_fresh [OF assms(1) this] show ?thesis
    by (simp add: compute_loss_def)
qed

lemma compute_loss_entries:
  "x \<in> set (compute_loss ads out_t out_s msk) \<Longrightarrow>
     x = (''pred:nll'', get_loss out_s) \<or> x = (''nll_loss_teacher'', get_loss out_t) \<or>
     (\<exists>a \<in> set ads. x = (name a, adaptor_loss out_t out_s msk a))"
  unfolding compute_loss_def by (drule fold_setitem_entries) auto

lemma compute_loss_has_pred:
  "\<exists>p. map_of (compute_loss ads out_t out_s msk) ''pred:nll'' = Some p"
proof -
  have "''pred:nll'' \<in> fst ` set (compute_loss ads out_t out_s msk)"
    by (simp add: compute_loss_keys)
  then show ?thesis
    by (metis map_of_eq_None_iff not_None_eq)
qed

lemma compute_loss_has_teacher:
  "\<exists>t. map_of (compute_loss ads out_t out_s msk) ''nll_loss_teacher'' = Some t"
proof -
  have "''nll_loss_teacher'' \<in> fst ` set (compute_loss ads out_t out_s msk)"
    by (simp add: compute_loss_keys)
  then show ?thesis
    by (metis map_of_eq_None_iff not_None_eq)
qed

lemma delete_fresh_entries:
  "k \<notin> name ` set ads \<Longrightarrow>
   AList.delete k (map (\<lambda>a. (name a, f a)) ads) = map (\<lambda>a. (name a, f a)) ads"
  by (rule delete_id) (auto simp: image_iff)

lemma sum_values_entries: "sum_values (map (\<lambda>a. (name a, f a)) ads) = sum_list (map f ads)"
  by (simp add: sum_values_sum_list comp_def)

text \<open>
  On a dictionary that holds both fixed keys no \<open>pop\<close> raises, and the reduction sums what
  is left after the removals.
\<close>

lemma reduce_loss_both:
  assumes "map_of d ''pred:nll'' = Some p" and "map_of d ''nll_loss_teacher'' = Some t"
  shows "reduce_loss d = Inr (sum_values (if p = 0
            then AList.delete ''nll_loss_teacher'' (AList.delete ''pred:nll'' d)
            else AList.delete ''nll_loss_teacher'' d))"
  using assms
  by (simp add: reduce_loss_def dict_getitem_def dict_pop_def dict_contains_def delete_conv')

lemma reduce_loss_filter:
  assumes "map_of d ''pred:nll'' = Some 0" and "map_of d ''nll_loss_teacher'' = Some t"
  shows "reduce_loss d =
           Inr (sum_values (filter (\<lambda>e. fst e \<noteq> ''pred:nll'' \<and> fst e \<noteq> ''nll_loss_teacher'') d))"
proof -
  have "AList.delete ''nll_loss_teacher'' (AList.delete ''pred:nll'' d) =
          filter (\<lambda>e. fst e \<noteq> ''pred:nll'' \<and> fst e \<noteq> ''nll_loss_teacher'') d"
    by (induction d) auto
  then show ?thesis using reduce_loss_both [OF assms] by simp
qed

lemma training_step_unfold:
  "training_step d batch =
     (compute_loss (adaptors d) (teacher d batch) (student d batch) (batch ''attention_mask''),
      reduce_loss (compute_loss (adaptors d) (teacher d batch) (student d batch)
                     (batch ''attention_mask'')))"
  by (simp add: training_step_def forward_def Let_def)

text \<open>The training step never raises: the two fixed keys are always in the dictionary.\<close>

lemma training_step_returns: "\<exists>v. snd (training_step d batch) = Inr v"
proof -
  obtain p t where
    "map_of (compute_loss (adaptors d) (teacher d batch) (student d batch)
               (batch ''attention_mask'')) ''pred:nll'' = Some p"
    "map_of (compute_loss (adaptors d) (teacher d batch) (student d batch)
               (batch ''attention_mask'')) ''nll_loss_teacher'' = Some t"
    using compute_loss_has_pred compute_loss_has_teacher by meson
  from reduce_loss_both [OF this] show ?thesis
    by (simp add: training_step_unfold)
qed

lemma dirname_examples:
  "dirname ''ckpts/epoch=0'' = ''ckpts'' \<and> dirname ''/a'' = ''/'' \<and>
   dirname ''a'' = [] \<and> dirname ''a//b'' = ''a''"
  by (simp add: dirname_def)

subsection \<open>The float-valued dictionary and the heap\<close>


lemma fold_update_keys:
  "fst ` set (foldl (\<lambda>d a. AList.update (nm a) (f a) d) d0 ads) = fst ` set d0 \<union> nm ` set ads"
  by (induction ads arbitrary: d0) (auto simp: dom_update)




lemma update_map_Finite:
  "AList.update k (Finite v) (map (\<lambda>e. (fst e, Finite (snd e))) d) =
   map (\<lambda>e. (fst e, Finite (snd e))) (AList.update k v d)"
  by (induction d) auto

lemma compute_loss_float_exact:
  assumes exact: "\<And>x y. mul (Finite x) (Finite y) = Finite (x * y)"
  shows "compute_loss_float mul (map lift_adaptor ads) (lift_out out_t) (lift_out out_s) msk =
           map (\<lambda>e. (fst e, Finite (snd e))) (compute_loss ads out_t out_s msk)"
proof -
  have al: "float_adaptor_loss mul (lift_out out_t) (lift_out out_s) msk (lift_adaptor a) =
              Finite (adaptor_loss out_t out_s msk a)" for a
    by (simp add: float_adaptor_loss_def adaptor_loss_def lift_adaptor_def lift_out_def
        float_feature_name_def feature_name_def exact)
  have nm: "float_name (lift_adaptor a) = name a" for a :: "'a adaptor"
    by (simp add: lift_adaptor_def)
  have gl: "get_float_loss (lift_out out) = Finite (get_loss out)" for out :: "'a model_out"
    by (simp add: get_float_loss_def get_loss_def lift_out_def split: option.splits)
  have loop: "foldl (\<lambda>d a. AList.update (float_name a)
                       (float_adaptor_loss mul (lift_out out_t) (lift_out out_s) msk a) d)
                (map (\<lambda>e. (fst e, Finite (snd e))) d0) (map lift_adaptor ads) =
              map (\<lambda>e. (fst e, Finite (snd e)))
                (foldl (\<lambda>d a. dict_setitem (name a) (adaptor_loss out_t out_s msk a) d) d0 ads)"
    for d0
    by (induction ads arbitrary: d0) (simp_all add: al nm update_map_Finite dict_setitem_def)
  show ?thesis
    using loop [of "[(''pred:nll'', get_loss out_s), (''nll_loss_teacher'', get_loss out_t)]"]
    by (simp add: compute_loss_float_def compute_loss_def gl)
qed






section \<open>The loss returned by a training step\<close>

text \<open>
  C1, as the code has it. When the student's prediction cross-entropy is not zero and the
  adaptors have pairwise distinct names other than the two fixed keys, the training step
  returns the prediction cross-entropy plus every adaptor's loss times its weight. The
  teacher's cross-entropy is not a summand: its entry is removed from the dictionary on
  every path.
\<close>

theorem training_step_labelled:
  assumes "distinct (map name (adaptors d))"
      and "''pred:nll'' \<notin> name ` set (adaptors d)"
      and "''nll_loss_teacher'' \<notin> name ` set (adaptors d)"
      and "get_loss (student d batch) \<noteq> 0"
  shows "snd (training_step d batch) =
           Inr (get_loss (student d batch) +
                sum_list (map (adaptor_loss (teacher d batch) (student d batch)
                                 (batch ''attention_mask''))
                              (adaptors d)))"
proof -
  let ?ld = "compute_loss (adaptors d) (teacher d batch) (student d batch)
               (batch ''attention_mask'')"
  let ?f = "adaptor_loss (teacher d batch) (student d batch) (batch ''attention_mask'')"
  have ld: "?ld = (''pred:nll'', get_loss (student d batch)) #
                  (''nll_loss_teacher'', get_loss (teacher d batch)) #
                  map (\<lambda>a. (name a, ?f a)) (adaptors d)"
    by (rule compute_loss_fresh [OF assms(1,2,3)])
  have p: "map_of ?ld ''pred:nll'' = Some (get_loss (student d batch))"
    by (simp add: ld)
  have t: "map_of ?ld ''nll_loss_teacher'' = Some (get_loss (teacher d batch))"
    by (simp add: ld)
  have del: "AList.delete ''nll_loss_teacher'' ?ld =
               (''pred:nll'', get_loss (student d batch)) #
               map (\<lambda>a. (name a, ?f a)) (adaptors d)"
    by (simp add: ld delete_fresh_entries [OF assms(3)])
  have "reduce_loss ?ld = Inr (sum_values (AList.delete ''nll_loss_teacher'' ?ld))"
    using reduce_loss_both [OF p t] assms(4) by simp
  also have "sum_values (AList.delete ''nll_loss_teacher'' ?ld) =
               get_loss (student d batch) + sum_list (map ?f (adaptors d))"
    unfolding del by (simp add: sum_values_sum_list comp_def)
  finally show ?thesis by (simp add: training_step_unfold)
qed

theorem training_step_labelled_witness:
  "distinct (map name (adaptors ex_distiller)) \<and>
   ''pred:nll'' \<notin> name ` set (adaptors ex_distiller) \<and>
   ''nll_loss_teacher'' \<notin> name ` set (adaptors ex_distiller) \<and>
   get_loss (student ex_distiller Map.empty) \<noteq> 0 \<and>
   snd (training_step ex_distiller Map.empty) = Inr 11"
  using training_step_labelled [of ex_distiller Map.empty]
  by (simp add: ex_distiller_def ex_adaptor_def get_loss_def adaptor_loss_def)

text \<open>
  With a student loss of 1, a teacher loss of 2 and one adaptor of weight 2 and loss 5, the
  step returns 11, not the 13 that the sum with the teacher's cross-entropy would be.
\<close>

theorem training_step_teacher_term_counterexample:
  "get_loss (student ex_distiller Map.empty) \<noteq> 0 \<and>
   snd (training_step ex_distiller Map.empty) = Inr 11 \<and>
   snd (training_step ex_distiller Map.empty) \<noteq>
     Inr (get_loss (student ex_distiller Map.empty) + get_loss (teacher ex_distiller Map.empty) +
          sum_list (map (adaptor_loss (teacher ex_distiller Map.empty)
                           (student ex_distiller Map.empty) (Map.empty ''attention_mask''))
                        (adaptors ex_distiller)))"
  by (simp add: training_step_unfold compute_loss_def dict_setitem_def reduce_loss_def
      dict_getitem_def dict_pop_def dict_contains_def sum_values_def
      ex_distiller_def ex_adaptor_def get_loss_def adaptor_loss_def)

text \<open>
  C2. When the entry \<open>pred:nll\<close> of the dictionary built (and logged) by the step is exactly
  zero, the step returns the sum of the entries under keys other than \<open>pred:nll\<close> and
  \<open>nll_loss_teacher\<close>; with adaptors named distinctly and apart from those two keys, that
  is the sum of the weighted adaptor losses and nothing else.
\<close>

theorem training_step_unlabelled:
  assumes zero: "dict_getitem ''pred:nll'' (fst (training_step d batch)) = Inr 0"
  shows "snd (training_step d batch) =
           Inr (sum_values (filter (\<lambda>e. fst e \<noteq> ''pred:nll'' \<and> fst e \<noteq> ''nll_loss_teacher'')
                                   (fst (training_step d batch)))) \<and>
         (distinct (map name (adaptors d)) \<and>
          ''pred:nll'' \<notin> name ` set (adaptors d) \<and>
          ''nll_loss_teacher'' \<notin> name ` set (adaptors d) \<longrightarrow>
          snd (training_step d batch) =
            Inr (sum_list (map (adaptor_loss (teacher d batch) (student d batch)
                                  (batch ''attention_mask''))
                               (adaptors d))))"
proof -
  let ?ld = "compute_loss (adaptors d) (teacher d batch) (student d batch)
               (batch ''attention_mask'')"
  let ?f = "adaptor_loss (teacher d batch) (student d batch) (batch ''attention_mask'')"
  let ?keep = "\<lambda>e::string \<times> real. fst e \<noteq> ''pred:nll'' \<and> fst e \<noteq> ''nll_loss_teacher''"
  have p: "map_of ?ld ''pred:nll'' = Some 0"
    using zero by (simp add: training_step_unfold dict_getitem_def split: option.splits)
  obtain t where t: "map_of ?ld ''nll_loss_teacher'' = Some t"
    using compute_loss_has_teacher by blast
  have red: "reduce_loss ?ld = Inr (sum_values (filter ?keep ?ld))"
    by (rule reduce_loss_filter [OF p t])
  have general: "snd (training_step d batch) =
                   Inr (sum_values (filter ?keep (fst (training_step d batch))))"
    by (simp add: training_step_unfold red)
  have named: "snd (training_step d batch) = Inr (sum_list (map ?f (adaptors d)))"
    if names: "distinct (map name (adaptors d)) \<and> ''pred:nll'' \<notin> name ` set (adaptors d) \<and>
               ''nll_loss_teacher'' \<notin> name ` set (adaptors d)"
  proof -
    have ld: "?ld = (''pred:nll'', get_loss (student d batch)) #
                    (''nll_loss_teacher'', get_loss (teacher d batch)) #
                    map (\<lambda>a. (name a, ?f a)) (adaptors d)"
      using names by (intro compute_loss_fresh) simp_all
    have "filter ?keep (map (\<lambda>a. (name a, ?f a)) (adaptors d)) =
            map (\<lambda>a. (name a, ?f a)) (adaptors d)"
      using names by (intro filter_True) (auto simp: image_iff)
    then have "filter ?keep ?ld = map (\<lambda>a. (name a, ?f a)) (adaptors d)"
      by (subst ld) simp
    then show ?thesis
      using red by (simp add: training_step_unfold sum_values_entries)
  qed
  from general named show ?thesis by blast
qed

theorem training_step_unlabelled_witness:
  "dict_getitem ''pred:nll'' (fst (training_step ex_distiller_unlabelled Map.empty)) = Inr 0 \<and>
   distinct (map name (adaptors ex_distiller_unlabelled)) \<and>
   ''pred:nll'' \<notin> name ` set (adaptors ex_distiller_unlabelled) \<and>
   ''nll_loss_teacher'' \<notin> name ` set (adaptors ex_distiller_unlabelled) \<and>
   snd (training_step ex_distiller_unlabelled Map.empty) = Inr 10"
  using training_step_unlabelled [of ex_distiller_unlabelled Map.empty]
  by (simp add: training_step_unfold compute_loss_def dict_setitem_def dict_getitem_def
      sum_values_def ex_distiller_unlabelled_def ex_adaptor_def get_loss_def adaptor_loss_def)

text \<open>
  C7. For any adaptor weights: when the student's loss is zero (or absent) and every
  adaptor's loss on the two outputs is zero, the training step returns zero. Nothing is
  asked of the teacher's loss, whose entry is never summed, nor of the adaptors' names.
\<close>

theorem training_step_zero:
  assumes s0: "get_loss (student d batch) = 0"
      and a0: "\<forall>a \<in> set (adaptors d).
                 call a (feats (teacher d batch) (feature_name a))
                        (feats (student d batch) (feature_name a)) (batch ''attention_mask'') = 0"
  shows "snd (training_step d batch) = Inr 0"
proof -
  let ?ld = "compute_loss (adaptors d) (teacher d batch) (student d batch)
               (batch ''attention_mask'')"
  let ?keep = "\<lambda>e::string \<times> real. fst e \<noteq> ''pred:nll'' \<and> fst e \<noteq> ''nll_loss_teacher''"
  have entries: "snd x = 0" if "x \<in> set ?ld" and "fst x \<noteq> ''nll_loss_teacher''" for x
    using compute_loss_entries [OF that(1)] that(2) s0 a0
    by (auto simp: adaptor_loss_def)
  obtain p where p: "map_of ?ld ''pred:nll'' = Some p"
    using compute_loss_has_pred by blast
  then have "(''pred:nll'', p) \<in> set ?ld" by (rule map_of_SomeD)
  from entries [OF this] have p0: "p = 0" by simp
  obtain t where t: "map_of ?ld ''nll_loss_teacher'' = Some t"
    using compute_loss_has_teacher by blast
  have red: "reduce_loss ?ld = Inr (sum_values (filter ?keep ?ld))"
    using reduce_loss_filter [OF _ t] p p0 by simp
  have "sum_list (map snd (filter ?keep ?ld)) = 0"
    by (rule sum_list_all_zero) (auto simp: entries)
  then show ?thesis
    by (simp add: training_step_unfold red sum_values_sum_list)
qed

theorem training_step_zero_witness:
  "get_loss (student ex_distiller_zero Map.empty) = 0 \<and>
   adaptors ex_distiller_zero = [ex_zero_adaptor] \<and>
   call ex_zero_adaptor
     (feats (teacher ex_distiller_zero Map.empty) (feature_name ex_zero_adaptor))
     (feats (student ex_distiller_zero Map.empty) (feature_name ex_zero_adaptor))
     (Map.empty ''attention_mask'') = 0 \<and>
   snd (training_step ex_distiller_zero Map.empty) = Inr 0"
  using training_step_zero [of ex_distiller_zero Map.empty]
  by (simp add: ex_distiller_zero_def ex_zero_adaptor_def get_loss_def)




section \<open>What a checkpoint writes\<close>

text \<open>
  C3. After \<open>on_save_checkpoint\<close>, \<open>save_checkpoint\<close> succeeds and serialises exactly one
  model to the path, the distiller's student, whatever else the checkpoint holds. For any
  checkpoint, the only model it can serialise is the one under the key \<open>student\<close>. A
  teacher that is not the student is not among the models newly written.
\<close>

theorem save_checkpoint_student_only:
  "save_checkpoint (on_save_checkpoint d ckpt) path fs =
     (None, fs\<lparr>made_dirs := made_dirs fs @ [dirname path],
               saved_models := saved_models fs @ [(path, student d)]\<rparr>) \<and>
   saved_models (snd (save_checkpoint ckpt path fs)) =
     saved_models fs @ (case ckpt ''student'' of Some (HgModel m) \<Rightarrow> [(path, m)] | _ \<Rightarrow> []) \<and>
   (teacher d \<noteq> student d \<longrightarrow>
      (path, teacher d) \<notin>
        set (saved_models (snd (save_checkpoint (on_save_checkpoint d ckpt) path fs))) -
        set (saved_models fs))"
  by (auto simp: save_checkpoint_def on_save_checkpoint_def Let_def
      split: option.splits ckpt_value.splits)

theorem save_checkpoint_student_only_witness:
  "teacher ex_distiller \<noteq> student ex_distiller \<and>
   saved_models (snd (save_checkpoint
       (on_save_checkpoint ex_distiller [''teacher'' \<mapsto> HgModel (teacher ex_distiller)])
       ''ckpts/epoch=0'' \<lparr>made_dirs = [], saved_models = []\<rparr>)) =
     [(''ckpts/epoch=0'', student ex_distiller)] \<and>
   (''ckpts/epoch=0'', teacher ex_distiller) \<notin>
     set (saved_models (snd (save_checkpoint
       (on_save_checkpoint ex_distiller [''teacher'' \<mapsto> HgModel (teacher ex_distiller)])
       ''ckpts/epoch=0'' \<lparr>made_dirs = [], saved_models = []\<rparr>))) -
     set (saved_models \<lparr>made_dirs = [], saved_models = []\<rparr>)"
proof -
  have neq: "teacher ex_distiller \<noteq> student ex_distiller"
    by (simp add: ex_distiller_def fun_eq_iff)
  show ?thesis
    using neq save_checkpoint_student_only [of ex_distiller
        "[''teacher'' \<mapsto> HgModel (teacher ex_distiller)]" "''ckpts/epoch=0''"
        "\<lparr>made_dirs = [], saved_models = []\<rparr>"]
    by simp
qed

section \<open>Perplexity\<close>

text \<open>
  C4. The perplexity logged by \<open>Pretrainer.validation_epoch_end\<close> is what \<open>math.exp\<close>
  returns for the mean loss whenever it returns, and positive infinity whenever it raises
  \<open>OverflowError\<close>. For the exact exponential with largest float \<open>max_float\<close> the
  threshold is \<open>ln max_float\<close>: the perplexity is \<open>exp r\<close> up to it and infinity above it.
\<close>

theorem perplexity_exp_or_inf:
  "(math_exp val_loss = Inr v \<longrightarrow>
      pretrainer_validation_epoch_end math_exp val_loss = Inr [(''perplexity'', v)]) \<and>
   (math_exp val_loss = Inl OverflowError \<longrightarrow>
      pretrainer_validation_epoch_end math_exp val_loss = Inr [(''perplexity'', PosInf)]) \<and>
   (0 < max_float \<and> r \<le> ln max_float \<longrightarrow>
      pretrainer_validation_epoch_end (exact_exp max_float) (Finite r) =
        Inr [(''perplexity'', Finite (exp r))]) \<and>
   (0 < max_float \<and> ln max_float < r \<longrightarrow>
      pretrainer_validation_epoch_end (exact_exp max_float) (Finite r) =
        Inr [(''perplexity'', PosInf)])"
proof -
  have le: "exp r \<le> max_float \<longleftrightarrow> r \<le> ln max_float" if "0 < max_float"
    using that by (metis exp_le_cancel_iff exp_ln)
  show ?thesis
    by (auto simp: pretrainer_validation_epoch_end_def exact_exp_def le)
qed

theorem perplexity_exp_or_inf_witness:
  "exact_exp 1 (Finite 0) = Inr (Finite 1) \<and>
   exact_exp 1 (Finite 5) = Inl OverflowError \<and>
   (0::real) < 1 \<and> (0::real) \<le> ln 1 \<and> ln 1 < (5::real) \<and>
   pretrainer_validation_epoch_end (exact_exp 1) (Finite 0) = Inr [(''perplexity'', Finite 1)] \<and>
   pretrainer_validation_epoch_end (exact_exp 1) (Finite 5) = Inr [(''perplexity'', PosInf)]"
  using perplexity_exp_or_inf [of "exact_exp 1" "Finite 0" "Finite 1" 1 0]
        perplexity_exp_or_inf [of "exact_exp 1" "Finite 5" "Finite 1" 1 5]
  by (simp add: exact_exp_def)

section \<open>The script\<close>

text \<open>
  C8. When the training dataset's name is none of \<open>sst2\<close>, \<open>tweet\<close>, \<open>sst2-tweet\<close>, or the
  validation dataset's name is neither \<open>sst2\<close> nor \<open>tweet\<close>, \<open>get_dataset_obj\<close> raises. With
  an unknown training name the exception is the \<open>UnboundLocalError\<close> of \<open>train\<close> (or of
  \<open>dataset\<close>, when the validation name is unknown too); with an unknown validation name
  and a training split that was found it is the \<open>UnboundLocalError\<close> of \<open>dataset\<close>.
\<close>

theorem get_dataset_obj_invalid_name:
  assumes "trn_dataset args \<notin> {''sst2'', ''tweet'', ''sst2-tweet''} \<or>
           val_dataset args \<notin> {''sst2'', ''tweet''}"
  shows "(\<exists>e. get_dataset_obj lib args = Inl e) \<and>
         (trn_dataset args \<notin> {''sst2'', ''tweet'', ''sst2-tweet''} \<longrightarrow>
            get_dataset_obj lib args =
              Inl (UnboundLocalError (if val_dataset args \<in> {''sst2'', ''tweet''}
                                      then ''train'' else ''dataset''))) \<and>
         (val_dataset args \<notin> {''sst2'', ''tweet''} \<longrightarrow>
            (\<forall>train. select_train lib args = Inr train \<longrightarrow>
               get_dataset_obj lib args = Inl (UnboundLocalError ''dataset'')))"
  using assms
  by (auto simp: get_dataset_obj_def select_train_def split: sum.splits option.splits)

theorem get_dataset_obj_invalid_name_witness:
  "trn_dataset (ex_args\<lparr>trn_dataset := ''imdb''\<rparr>) \<notin> {''sst2'', ''tweet'', ''sst2-tweet''} \<and>
   get_dataset_obj ex_lib (ex_args\<lparr>trn_dataset := ''imdb''\<rparr>) = Inl (UnboundLocalError ''train'') \<and>
   val_dataset (ex_args\<lparr>val_dataset := ''imdb''\<rparr>) \<notin> {''sst2'', ''tweet''} \<and>
   select_train ex_lib (ex_args\<lparr>val_dataset := ''imdb''\<rparr>) = Inr (Some 3) \<and>
   get_dataset_obj ex_lib (ex_args\<lparr>val_dataset := ''imdb''\<rparr>) = Inl (UnboundLocalError ''dataset'')"
  using get_dataset_obj_invalid_name [of "ex_args\<lparr>trn_dataset := ''imdb''\<rparr>" ex_lib]
        get_dataset_obj_invalid_name [of "ex_args\<lparr>val_dataset := ''imdb''\<rparr>" ex_lib]
  by (simp add: ex_args_def ex_lib_def select_train_def split_getitem_def)

text \<open>
  C10. With the validation dataset \<open>tweet\<close>, a successful \<open>get_dataset_obj\<close> leaves
  \<open>num_classes\<close> as it was and sets the attribute \<open>num_clases\<close> to 3. The teacher, the
  student and the metrics of a distiller built from the namespace afterwards all get the
  old \<open>num_classes\<close>, which is 2 with the parser's default.
\<close>

theorem tweet_keeps_num_classes:
  assumes "val_dataset args = ''tweet''"
      and "get_dataset_obj lib args = Inr (dataset, args')"
  shows "num_classes args' = num_classes args \<and> num_clases args' = Some 3 \<and>
         num_labels (fst (get_teacher_and_student args')) = num_classes args \<and>
         num_labels (snd (get_teacher_and_student args')) = num_classes args \<and>
         (\<forall>t s ads obj. new_BaseDistiller [t, s, ArgsV args', ads] = Inr obj \<longrightarrow>
            metric_num_classes obj = num_classes args)"
proof -
  have args': "args' = args\<lparr>num_clases := Some 3\<rparr>"
    using assms
    by (auto simp: get_dataset_obj_def split: sum.splits option.splits if_splits)
  show ?thesis
    by (auto simp: args' get_teacher_and_student_def new_BaseDistiller_def Let_def)
qed

theorem tweet_keeps_num_classes_witness:
  "val_dataset ex_args = ''tweet'' \<and>
   get_dataset_obj ex_lib ex_args =
     Inr ([''validation'' \<mapsto> 4, ''train'' \<mapsto> 3], ex_args\<lparr>num_clases := Some 3\<rparr>) \<and>
   num_classes ex_args = 2 \<and>
   num_classes (ex_args\<lparr>num_clases := Some 3\<rparr>) = 2 \<and>
   num_labels (fst (get_teacher_and_student (ex_args\<lparr>num_clases := Some 3\<rparr>))) = 2 \<and>
   num_labels (snd (get_teacher_and_student (ex_args\<lparr>num_clases := Some 3\<rparr>))) = 2 \<and>
   new_BaseDistiller [AdaptorV ''t'', AdaptorV ''s'', ArgsV (ex_args\<lparr>num_clases := Some 3\<rparr>),
                      AdaptorV ''a''] =
     Inr \<lparr>obj_teacher = AdaptorV ''t'', obj_student = AdaptorV ''s'',
          obj_adaptors = AdaptorV ''a'', metric_num_classes = 2\<rparr>"
proof -
  have run: "get_dataset_obj ex_lib ex_args =
     Inr ([''validation'' \<mapsto> 4, ''train'' \<mapsto> 3], ex_args\<lparr>num_clases := Some 3\<rparr>)"
    by (simp add: get_dataset_obj_def select_train_def split_getitem_def ex_lib_def ex_args_def)
  have v: "val_dataset ex_args = ''tweet''" by (simp add: ex_args_def)
  from tweet_keeps_num_classes [OF v run] run v show ?thesis
    by (simp add: ex_args_def new_BaseDistiller_def)
qed

end
